theory Spec2Isabelle
  imports Main "HOL-Library.Word"
begin

section \<open>Argument values and call outcomes\<close>

text \<open>
  The three files of the fragment pass only scalars and addresses across calls.
  An address is a natural number, \<open>0\<close> being the null pointer; a \<open>double\<close> is
  passed as its 64-bit pattern and an \<open>int\<close> as a 32-bit word. No function of the
  fragment computes with either.
\<close>

type_synonym c_ptr = nat
type_synonym c_double = "64 word"
type_synonym c_int = "32 word"

text \<open>
  A C++ call either returns a value or leaves by an exception. A call of a
  \<open>void\<close> function that returns yields \<open>Returns ()\<close>.
\<close>

datatype 'a outcome = Returns 'a | Throws

type_synonym ('s, 'a) call = "'s \<Rightarrow> 'a outcome \<times> 's"

text \<open>The empty compound statement \<open>{}\<close> as a function body: return, state untouched.\<close>

definition empty_body :: "('s, unit) call" where
  "empty_body s = (Returns (), s)"

section \<open>telemetry\_stub.cpp: namespace cactus::telemetry\<close>

text \<open>
  Every function of the file has unnamed parameters and the body \<open>{}\<close>. The state
  type \<open>'s\<close> is arbitrary: it stands for whatever the process holds (memory, files,
  connections). The two overloads of \<open>recordCompletion\<close> get a suffix each, since
  HOL has no overloading by arity. The reference \<open>const CompletionMetrics&\<close> is an
  address: \<open>CompletionMetrics\<close> is only forward-declared in the file.
\<close>

definition init :: "c_ptr \<Rightarrow> c_ptr \<Rightarrow> c_ptr \<Rightarrow> ('s, unit) call" where
  "init a1 a2 a3 = empty_body"

definition setEnabled :: "bool \<Rightarrow> ('s, unit) call" where
  "setEnabled a1 = empty_body"

definition setCloudDisabled :: "bool \<Rightarrow> ('s, unit) call" where
  "setCloudDisabled a1 = empty_body"

definition setTelemetryEnvironment :: "c_ptr \<Rightarrow> c_ptr \<Rightarrow> ('s, unit) call" where
  "setTelemetryEnvironment a1 a2 = empty_body"

definition setCloudKey :: "c_ptr \<Rightarrow> ('s, unit) call" where
  "setCloudKey a1 = empty_body"

definition recordInit :: "c_ptr \<Rightarrow> bool \<Rightarrow> c_double \<Rightarrow> c_ptr \<Rightarrow> ('s, unit) call" where
  "recordInit a1 a2 a3 a4 = empty_body"

definition recordCompletion_metrics :: "c_ptr \<Rightarrow> c_ptr \<Rightarrow> ('s, unit) call" where
  "recordCompletion_metrics a1 a2 = empty_body"

definition recordCompletion_fields ::
  "c_ptr \<Rightarrow> bool \<Rightarrow> c_double \<Rightarrow> c_double \<Rightarrow> c_double \<Rightarrow> c_int \<Rightarrow> c_ptr \<Rightarrow> ('s, unit) call" where
  "recordCompletion_fields a1 a2 a3 a4 a5 a6 a7 = empty_body"

definition recordEmbedding :: "c_ptr \<Rightarrow> bool \<Rightarrow> c_ptr \<Rightarrow> ('s, unit) call" where
  "recordEmbedding a1 a2 a3 = empty_body"

definition recordTranscription ::
  "c_ptr \<Rightarrow> bool \<Rightarrow> c_double \<Rightarrow> c_double \<Rightarrow> c_double \<Rightarrow> c_int \<Rightarrow> c_ptr \<Rightarrow> ('s, unit) call" where
  "recordTranscription a1 a2 a3 a4 a5 a6 a7 = empty_body"

definition recordStreamTranscription ::
  "c_ptr \<Rightarrow> bool \<Rightarrow> c_double \<Rightarrow> c_double \<Rightarrow> c_double \<Rightarrow> c_int \<Rightarrow>
   c_double \<Rightarrow> c_double \<Rightarrow> c_double \<Rightarrow> c_int \<Rightarrow> c_ptr \<Rightarrow> ('s, unit) call" where
  "recordStreamTranscription a1 a2 a3 a4 a5 a6 a7 a8 a9 a10 a11 = empty_body"

definition setStreamMode :: "bool \<Rightarrow> ('s, unit) call" where
  "setStreamMode a1 = empty_body"

definition markInference :: "bool \<Rightarrow> ('s, unit) call" where
  "markInference a1 = empty_body"

definition flush :: "('s, unit) call" where
  "flush = empty_body"

definition shutdown :: "('s, unit) call" where
  "shutdown = empty_body"

subsection \<open>Call sites\<close>

text \<open>
  A call site names one of the fifteen functions and supplies its arguments.
  \<open>dispatch\<close> is the call itself; \<open>run_calls\<close> is a caller that issues a sequence
  of them, an exception ending the sequence as it would unwind the caller.
\<close>

datatype telemetry_call =
    Call_init c_ptr c_ptr c_ptr
  | Call_setEnabled bool
  | Call_setCloudDisabled bool
  | Call_setTelemetryEnvironment c_ptr c_ptr
  | Call_setCloudKey c_ptr
  | Call_recordInit c_ptr bool c_double c_ptr
  | Call_recordCompletion_metrics c_ptr c_ptr
  | Call_recordCompletion_fields c_ptr bool c_double c_double c_double c_int c_ptr
  | Call_recordEmbedding c_ptr bool c_ptr
  | Call_recordTranscription c_ptr bool c_double c_double c_double c_int c_ptr
  | Call_recordStreamTranscription c_ptr bool c_double c_double c_double c_int
      c_double c_double c_double c_int c_ptr
  | Call_setStreamMode bool
  | Call_markInference bool
  | Call_flush
  | Call_shutdown

fun dispatch :: "telemetry_call \<Rightarrow> ('s, unit) call" where
  "dispatch (Call_init a1 a2 a3) = init a1 a2 a3"
| "dispatch (Call_setEnabled a1) = setEnabled a1"
| "dispatch (Call_setCloudDisabled a1) = setCloudDisabled a1"
| "dispatch (Call_setTelemetryEnvironment a1 a2) = setTelemetryEnvironment a1 a2"
| "dispatch (Call_setCloudKey a1) = setCloudKey a1"
| "dispatch (Call_recordInit a1 a2 a3 a4) = recordInit a1 a2 a3 a4"
| "dispatch (Call_recordCompletion_metrics a1 a2) = recordCompletion_metrics a1 a2"
| "dispatch (Call_recordCompletion_fields a1 a2 a3 a4 a5 a6 a7) =
     recordCompletion_fields a1 a2 a3 a4 a5 a6 a7"
| "dispatch (Call_recordEmbedding a1 a2 a3) = recordEmbedding a1 a2 a3"
| "dispatch (Call_recordTranscription a1 a2 a3 a4 a5 a6 a7) =
     recordTranscription a1 a2 a3 a4 a5 a6 a7"
| "dispatch (Call_recordStreamTranscription a1 a2 a3 a4 a5 a6 a7 a8 a9 a10 a11) =
     recordStreamTranscription a1 a2 a3 a4 a5 a6 a7 a8 a9 a10 a11"
| "dispatch (Call_setStreamMode a1) = setStreamMode a1"
| "dispatch (Call_markInference a1) = markInference a1"
| "dispatch Call_flush = flush"
| "dispatch Call_shutdown = shutdown"

fun run_calls :: "telemetry_call list \<Rightarrow> ('s, unit) call" where
  "run_calls [] s = (Returns (), s)"
| "run_calls (c # cs) s =
     (case dispatch c s of
        (Returns u, s') \<Rightarrow> run_calls cs s'
      | (Throws, s') \<Rightarrow> (Throws, s'))"

text \<open>
  The function a call site names: its identifier and the number of arguments,
  which tells the two overloads of \<open>recordCompletion\<close> apart.
\<close>

fun entry_point :: "telemetry_call \<Rightarrow> string \<times> nat" where
  "entry_point (Call_init a1 a2 a3) = (''init'', 3)"
| "entry_point (Call_setEnabled a1) = (''setEnabled'', 1)"
| "entry_point (Call_setCloudDisabled a1) = (''setCloudDisabled'', 1)"
| "entry_point (Call_setTelemetryEnvironment a1 a2) = (''setTelemetryEnvironment'', 2)"
| "entry_point (Call_setCloudKey a1) = (''setCloudKey'', 1)"
| "entry_point (Call_recordInit a1 a2 a3 a4) = (''recordInit'', 4)"
| "entry_point (Call_recordCompletion_metrics a1 a2) = (''recordCompletion'', 2)"
| "entry_point (Call_recordCompletion_fields a1 a2 a3 a4 a5 a6 a7) = (''recordCompletion'', 7)"
| "entry_point (Call_recordEmbedding a1 a2 a3) = (''recordEmbedding'', 3)"
| "entry_point (Call_recordTranscription a1 a2 a3 a4 a5 a6 a7) = (''recordTranscription'', 7)"
| "entry_point (Call_recordStreamTranscription a1 a2 a3 a4 a5 a6 a7 a8 a9 a10 a11) =
     (''recordStreamTranscription'', 11)"
| "entry_point (Call_setStreamMode a1) = (''setStreamMode'', 1)"
| "entry_point (Call_markInference a1) = (''markInference'', 1)"
| "entry_point Call_flush = (''flush'', 0)"
| "entry_point Call_shutdown = (''shutdown'', 0)"

text \<open>The same call with the null pointer for every pointer and reference argument.\<close>

fun null_pointers :: "telemetry_call \<Rightarrow> telemetry_call" where
  "null_pointers (Call_init a1 a2 a3) = Call_init 0 0 0"
| "null_pointers (Call_setTelemetryEnvironment a1 a2) = Call_setTelemetryEnvironment 0 0"
| "null_pointers (Call_setCloudKey a1) = Call_setCloudKey 0"
| "null_pointers (Call_recordInit a1 a2 a3 a4) = Call_recordInit 0 a2 a3 0"
| "null_pointers (Call_recordCompletion_metrics a1 a2) = Call_recordCompletion_metrics 0 0"
| "null_pointers (Call_recordCompletion_fields a1 a2 a3 a4 a5 a6 a7) =
     Call_recordCompletion_fields 0 a2 a3 a4 a5 a6 0"
| "null_pointers (Call_recordEmbedding a1 a2 a3) = Call_recordEmbedding 0 a2 0"
| "null_pointers (Call_recordTranscription a1 a2 a3 a4 a5 a6 a7) =
     Call_recordTranscription 0 a2 a3 a4 a5 a6 0"
| "null_pointers (Call_recordStreamTranscription a1 a2 a3 a4 a5 a6 a7 a8 a9 a10 a11) =
     Call_recordStreamTranscription 0 a2 a3 a4 a5 a6 a7 a8 a9 a10 0"
| "null_pointers c = c"

section \<open>logging.h\<close>

text \<open>
  \<open>enum LogLevel\<close> with its four enumerators; \<open>LogLevel_value\<close> is the integer
  each initialiser gives.
\<close>

datatype LogLevel = LOG_DEBUG | LOG_INFO | LOG_WARNING | LOG_ERROR

fun LogLevel_value :: "LogLevel \<Rightarrow> int" where
  "LogLevel_value LOG_DEBUG = 0"
| "LogLevel_value LOG_INFO = 1"
| "LogLevel_value LOG_WARNING = 2"
| "LogLevel_value LOG_ERROR = 3"

text \<open>
  The convenience macros. \<open>LOG_TAG\<close> is an object-like macro for a string literal.
  The four function-like macros expand to a call of whatever \<open>cactus_log\<close> names at
  the place of use, so the embedding takes that function as the parameter \<open>log\<close>;
  \<open>msg\<close> is substituted textually and has any type an overload accepts.
\<close>

definition LOG_TAG :: string where
  "LOG_TAG = ''CactusUtil''"

definition CACTUS_LOG_DEBUG :: "(LogLevel \<Rightarrow> string \<Rightarrow> 'm \<Rightarrow> 'r) \<Rightarrow> 'm \<Rightarrow> 'r" where
  "CACTUS_LOG_DEBUG log msg = log LOG_DEBUG LOG_TAG msg"

definition CACTUS_LOG_INFO :: "(LogLevel \<Rightarrow> string \<Rightarrow> 'm \<Rightarrow> 'r) \<Rightarrow> 'm \<Rightarrow> 'r" where
  "CACTUS_LOG_INFO log msg = log LOG_INFO LOG_TAG msg"

definition CACTUS_LOG_WARNING :: "(LogLevel \<Rightarrow> string \<Rightarrow> 'm \<Rightarrow> 'r) \<Rightarrow> 'm \<Rightarrow> 'r" where
  "CACTUS_LOG_WARNING log msg = log LOG_WARNING LOG_TAG msg"

definition CACTUS_LOG_ERROR :: "(LogLevel \<Rightarrow> string \<Rightarrow> 'm \<Rightarrow> 'r) \<Rightarrow> 'm \<Rightarrow> 'r" where
  "CACTUS_LOG_ERROR log msg = log LOG_ERROR LOG_TAG msg"

section \<open>The declarations of the three files\<close>

text \<open>
  What a file declares depends on the macros the build defines and on the
  linkage blocks and namespaces around each declaration, so the files are also
  given as their sequence of preprocessor lines and declarations, in file order.
\<close>

datatype ctype =
    C_void | C_bool | C_int | C_double | C_char
  | Named string
  | Const ctype
  | Pointer ctype
  | Reference ctype

abbreviation const_char_ptr :: ctype where
  "const_char_ptr \<equiv> Pointer (Const C_char)"

text \<open>
  \<open>Fun_decl\<close> is a declaration ending in \<open>;\<close>, \<open>Fun_def\<close> a definition whose body
  is \<open>{}\<close>. \<open>Extern_C_open\<close> and \<open>Namespace_open\<close> are the opening lines of a
  block, \<open>Brace_close\<close> a closing \<open>}\<close>: cactus\_util.h opens and closes its
  linkage block inside two separate conditional groups, so blocks cannot be nested
  terms.
\<close>

datatype item =
    Include string
  | Extern_C_open
  | Namespace_open string
  | Brace_close
  | Enum_def string "(string \<times> int) list"
  | Struct_fwd string
  | Fun_decl ctype string "ctype list"
  | Fun_def ctype string "ctype list"

text \<open>
  \<open>Define\<close> records the name a \<open>#define\<close> introduces (the replacement lists of
  logging.h are the definitions of the previous section).
\<close>

datatype line =
    Ifdef string "line list"
  | Ifndef string "line list"
  | Define string
  | Item item

definition logging_h :: "line list" where
  "logging_h =
    [Ifndef ''LOGGING_H''
      [Define ''LOGGING_H'',
       Item (Include ''string''),
       Item (Enum_def ''LogLevel''
         [(''LOG_DEBUG'', 0), (''LOG_INFO'', 1), (''LOG_WARNING'', 2), (''LOG_ERROR'', 3)]),
       Item (Fun_decl C_void ''cactus_log''
         [Named ''LogLevel'', const_char_ptr, const_char_ptr]),
       Item (Fun_decl C_void ''cactus_log''
         [Named ''LogLevel'', const_char_ptr, Reference (Const (Named ''std::string''))]),
       Define ''LOG_TAG'',
       Define ''CACTUS_LOG_DEBUG'',
       Define ''CACTUS_LOG_INFO'',
       Define ''CACTUS_LOG_WARNING'',
       Define ''CACTUS_LOG_ERROR'']]"

definition cactus_util_h :: "line list" where
  "cactus_util_h =
    [Ifndef ''cactus_util_H''
      [Define ''cactus_util_H'',
       Ifdef ''__cplusplus'' [Item Extern_C_open],
       Item (Fun_decl const_char_ptr ''register_app'' [const_char_ptr]),
       Item (Fun_decl const_char_ptr ''get_device_id'' [const_char_ptr]),
       Item (Fun_decl C_void ''free_string'' [const_char_ptr]),
       Ifdef ''__ANDROID__''
         [Item (Fun_decl C_void ''set_android_data_directory'' [const_char_ptr])],
       Ifdef ''__cplusplus'' [Item Brace_close]]]"

definition telemetry_stub_cpp :: "line list" where
  "telemetry_stub_cpp =
    [Item (Namespace_open ''cactus''),
     Item (Namespace_open ''telemetry''),
     Item (Struct_fwd ''CompletionMetrics''),
     Item (Fun_def C_void ''init'' [const_char_ptr, const_char_ptr, const_char_ptr]),
     Item (Fun_def C_void ''setEnabled'' [C_bool]),
     Item (Fun_def C_void ''setCloudDisabled'' [C_bool]),
     Item (Fun_def C_void ''setTelemetryEnvironment'' [const_char_ptr, const_char_ptr]),
     Item (Fun_def C_void ''setCloudKey'' [const_char_ptr]),
     Item (Fun_def C_void ''recordInit'' [const_char_ptr, C_bool, C_double, const_char_ptr]),
     Item (Fun_def C_void ''recordCompletion''
       [const_char_ptr, Reference (Const (Named ''CompletionMetrics''))]),
     Item (Fun_def C_void ''recordCompletion''
       [const_char_ptr, C_bool, C_double, C_double, C_double, C_int, const_char_ptr]),
     Item (Fun_def C_void ''recordEmbedding'' [const_char_ptr, C_bool, const_char_ptr]),
     Item (Fun_def C_void ''recordTranscription''
       [const_char_ptr, C_bool, C_double, C_double, C_double, C_int, const_char_ptr]),
     Item (Fun_def C_void ''recordStreamTranscription''
       [const_char_ptr, C_bool, C_double, C_double, C_double, C_int,
        C_double, C_double, C_double, C_int, const_char_ptr]),
     Item (Fun_def C_void ''setStreamMode'' [C_bool]),
     Item (Fun_def C_void ''markInference'' [C_bool]),
     Item (Fun_def C_void ''flush'' []),
     Item (Fun_def C_void ''shutdown'' []),
     Item Brace_close,
     Item Brace_close]"

subsection \<open>Conditional inclusion\<close>

text \<open>
  \<open>preprocess\<close> keeps the lines of the conditional groups the macro environment
  selects; a \<open>#define\<close> extends the environment for the lines after it. It
  returns the declarations left and the final environment.
\<close>

fun preprocess :: "string set \<Rightarrow> line list \<Rightarrow> item list \<times> string set" where
  "preprocess env [] = ([], env)"
| "preprocess env (Item i # ls) =
     (case preprocess env ls of (its, env') \<Rightarrow> (i # its, env'))"
| "preprocess env (Define m # ls) = preprocess (insert m env) ls"
| "preprocess env (Ifdef m body # ls) =
     (if m \<in> env then preprocess env (body @ ls) else preprocess env ls)"
| "preprocess env (Ifndef m body # ls) =
     (if m \<in> env then preprocess env ls else preprocess env (body @ ls))"

subsection \<open>Linkage and scope\<close>

datatype linkage = C_linkage | Cxx_linkage

datatype scope = In_extern_C | In_namespace string

record symbol =
  sym_name :: string
  sym_namespace :: "string list"
  sym_linkage :: linkage
  sym_return :: ctype
  sym_params :: "ctype list"
  sym_defined :: bool

text \<open>
  The language linkage of a function: a C translation unit has C linkage
  throughout; in C++ a function has C linkage when a linkage block
  \<open>extern "C" { }\<close> encloses it, and C++ linkage otherwise. \<open>scopes\<close> lists the
  enclosing blocks, innermost first.
\<close>

definition linkage_in :: "bool \<Rightarrow> scope list \<Rightarrow> linkage" where
  "linkage_in cxx scopes =
     (if cxx \<and> In_extern_C \<notin> set scopes then Cxx_linkage else C_linkage)"

fun namespace_path :: "scope list \<Rightarrow> string list" where
  "namespace_path [] = []"
| "namespace_path (In_namespace n # scopes) = namespace_path scopes @ [n]"
| "namespace_path (In_extern_C # scopes) = namespace_path scopes"

definition mk_symbol :: "bool \<Rightarrow> scope list \<Rightarrow> ctype \<Rightarrow> string \<Rightarrow> ctype list \<Rightarrow> bool \<Rightarrow> symbol" where
  "mk_symbol cxx scopes ret name params defined =
     \<lparr>sym_name = name, sym_namespace = namespace_path scopes,
      sym_linkage = linkage_in cxx scopes, sym_return = ret, sym_params = params,
      sym_defined = defined\<rparr>"

fun functions_of :: "bool \<Rightarrow> scope list \<Rightarrow> item list \<Rightarrow> symbol list" where
  "functions_of cxx scopes [] = []"
| "functions_of cxx scopes (Extern_C_open # its) = functions_of cxx (In_extern_C # scopes) its"
| "functions_of cxx scopes (Namespace_open n # its) = functions_of cxx (In_namespace n # scopes) its"
| "functions_of cxx scopes (Brace_close # its) = functions_of cxx (tl scopes) its"
| "functions_of cxx scopes (Fun_decl ret name params # its) =
     mk_symbol cxx scopes ret name params False # functions_of cxx scopes its"
| "functions_of cxx scopes (Fun_def ret name params # its) =
     mk_symbol cxx scopes ret name params True # functions_of cxx scopes its"
| "functions_of cxx scopes (Include h # its) = functions_of cxx scopes its"
| "functions_of cxx scopes (Enum_def n es # its) = functions_of cxx scopes its"
| "functions_of cxx scopes (Struct_fwd n # its) = functions_of cxx scopes its"

text \<open>
  The functions a file declares under a macro environment. The translation unit
  is C++ exactly when the compiler predefines \<open>__cplusplus\<close>.
\<close>

definition symbols :: "string set \<Rightarrow> line list \<Rightarrow> symbol list" where
  "symbols env src = functions_of (''__cplusplus'' \<in> env) [] (fst (preprocess env src))"

text \<open>The declarations of one name, and the parameter lists of its overloads.\<close>

definition named :: "string \<Rightarrow> symbol list \<Rightarrow> symbol list" where
  "named name syms = filter (\<lambda>s. sym_name s = name) syms"

definition overloads :: "string \<Rightarrow> symbol list \<Rightarrow> ctype list list" where
  "overloads name syms = map sym_params (named name syms)"

definition signature :: "symbol \<Rightarrow> string \<times> ctype list" where
  "signature s = (sym_name s, sym_params s)"

definition name_and_arity :: "symbol \<Rightarrow> string \<times> nat" where
  "name_and_arity s = (sym_name s, length (sym_params s))"

definition has_C_linkage :: "symbol \<Rightarrow> bool" where
  "has_C_linkage s = (sym_linkage s = C_linkage)"

definition has_Cxx_linkage :: "symbol \<Rightarrow> bool" where
  "has_Cxx_linkage s = (sym_linkage s = Cxx_linkage)"

definition returns_void :: "symbol \<Rightarrow> bool" where
  "returns_void s = (sym_return s = C_void)"

definition name_and_return :: "symbol \<Rightarrow> string \<times> ctype" where
  "name_and_return s = (sym_name s, sym_return s)"

definition in_namespace :: "string list \<Rightarrow> symbol \<Rightarrow> bool" where
  "in_namespace path s = (sym_namespace s = path)"

definition params_among :: "ctype list \<Rightarrow> symbol \<Rightarrow> bool" where
  "params_among ts s = list_all (\<lambda>t. t \<in> set ts) (sym_params s)"

text \<open>
  The types a file names and the ones it completes: an enum definition gives a
  complete type, a forward declaration \<open>struct S;\<close> only a name.
\<close>

fun named_types :: "item list \<Rightarrow> string list" where
  "named_types [] = []"
| "named_types (Enum_def n es # its) = n # named_types its"
| "named_types (Struct_fwd n # its) = n # named_types its"
| "named_types (i # its) = named_types its"

fun complete_types :: "item list \<Rightarrow> string list" where
  "complete_types [] = []"
| "complete_types (Enum_def n es # its) = n # complete_types its"
| "complete_types (i # its) = complete_types its"

text \<open>
  A parameter type declared read-only: a scalar passed by value, or a pointer or
  reference to a \<open>const\<close> object that in turn holds nothing writable. A
  \<open>const\<close> on the parameter itself (\<open>char* const\<close>) does not count, and neither
  does a \<open>const\<close> pointer to a writable object (\<open>char* const*\<close>). This is a
  property of the declaration only; what a body does is a property of the body.
\<close>

fun read_only :: "ctype \<Rightarrow> bool"
  and pointee_const :: "ctype \<Rightarrow> bool" where
  "read_only (Pointer t) = pointee_const t"
| "read_only (Reference t) = pointee_const t"
| "read_only (Const t) = read_only t"
| "read_only t = True"
| "pointee_const (Const t) = read_only t"
| "pointee_const t = False"

text \<open>The parameter types C has: everything here but a C++ reference.\<close>

fun c_compatible :: "ctype \<Rightarrow> bool" where
  "c_compatible (Reference t) = False"
| "c_compatible (Const t) = c_compatible t"
| "c_compatible (Pointer t) = c_compatible t"
| "c_compatible t = True"

definition c_compatible_params :: "symbol \<Rightarrow> bool" where
  "c_compatible_params s = list_all c_compatible (sym_params s)"

section \<open>The bodies behind the headers\<close>

text \<open>
  logging.h and cactus\_util.h only declare their functions; the bodies are in
  the prebuilt framework binary. The definitions of this section follow the
  specification's words instead.
\<close>

subsection \<open>Logging\<close>

record log_record =
  lr_level :: LogLevel
  lr_tag :: string
  lr_message :: string

text \<open>
  Modelled from the spec: the platform sink behind \<open>cactus_log\<close> (absent body).
  "Emit the message through a platform-appropriate sink"; "logging failures are
  swallowed". The state is the sequence of records the sink has emitted;
  \<open>sink_accepts\<close> says whether the platform takes the record, and a refused
  record is dropped without any report.
\<close>

definition emit :: "(log_record \<Rightarrow> bool) \<Rightarrow> log_record \<Rightarrow> (log_record list, unit) call" where
  "emit sink_accepts r out = (Returns (), if sink_accepts r then out @ [r] else out)"

text \<open>
  Modelled from the spec: the body of
  \<open>void cactus_log(LogLevel, const char* tag, const char* message)\<close>, absent
  from the sources. "Given a severity level, a tag string, and a message
  (accepted as either a raw byte-string or a higher-level string type), emit the
  message"; "no return value; must not throw/fail".
\<close>

definition cactus_log_cstr ::
  "(log_record \<Rightarrow> bool) \<Rightarrow> LogLevel \<Rightarrow> string \<Rightarrow> string \<Rightarrow> (log_record list, unit) call" where
  "cactus_log_cstr sink_accepts level tag message =
     emit sink_accepts \<lparr>lr_level = level, lr_tag = tag, lr_message = message\<rparr>"

text \<open>
  Modelled from the spec: the body of
  \<open>void cactus_log(LogLevel, const char* tag, const std::string& message)\<close>,
  absent from the sources; the same contract on the higher-level string.
\<close>

definition cactus_log_string ::
  "(log_record \<Rightarrow> bool) \<Rightarrow> LogLevel \<Rightarrow> string \<Rightarrow> string \<Rightarrow> (log_record list, unit) call" where
  "cactus_log_string sink_accepts level tag message =
     emit sink_accepts \<lparr>lr_level = level, lr_tag = tag, lr_message = message\<rparr>"

text \<open>
  The caller's side of a logging call: \<open>tag\<close> and \<open>message\<close> are addresses of
  objects in the caller's memory. \<open>strings_at\<close> gives the characters of the
  string object at an address (a NUL-terminated array or a \<open>std::string\<close>),
  \<open>emitted\<close> what the sink has emitted.
\<close>

record log_state =
  strings_at :: "c_ptr \<rightharpoonup> string"
  emitted :: "log_record list"

text \<open>
  Modelled from the spec: the body of
  \<open>void cactus_log(LogLevel, const char* tag, const char* message)\<close>, absent
  from the sources, on the caller's memory. It reads the two strings and emits
  the record; it "must not mutate any shared state", so the memory it returns is
  the one it got. A tag or message that cannot be read is a logging failure like
  a refused record: "must not throw/fail -- logging failures are swallowed".
\<close>

definition cactus_log_cstr_call ::
  "(log_record \<Rightarrow> bool) \<Rightarrow> LogLevel \<Rightarrow> c_ptr \<Rightarrow> c_ptr \<Rightarrow> (log_state, unit) call" where
  "cactus_log_cstr_call sink_accepts level tag message st =
     (case strings_at st tag of
        None \<Rightarrow> (Returns (), st)
      | Some t \<Rightarrow>
         (case strings_at st message of
            None \<Rightarrow> (Returns (), st)
          | Some m \<Rightarrow>
             (case cactus_log_cstr sink_accepts level t m (emitted st) of
                (res, out) \<Rightarrow> (res, st\<lparr>emitted := out\<rparr>))))"

text \<open>
  Modelled from the spec: the body of
  \<open>void cactus_log(LogLevel, const char* tag, const std::string& message)\<close>,
  absent from the sources, on the caller's memory; \<open>message\<close> is the address of
  the \<open>std::string\<close> the reference is bound to. Same contract.
\<close>

definition cactus_log_string_call ::
  "(log_record \<Rightarrow> bool) \<Rightarrow> LogLevel \<Rightarrow> c_ptr \<Rightarrow> c_ptr \<Rightarrow> (log_state, unit) call" where
  "cactus_log_string_call sink_accepts level tag message st =
     (case strings_at st tag of
        None \<Rightarrow> (Returns (), st)
      | Some t \<Rightarrow>
         (case strings_at st message of
            None \<Rightarrow> (Returns (), st)
          | Some m \<Rightarrow>
             (case cactus_log_string sink_accepts level t m (emitted st) of
                (res, out) \<Rightarrow> (res, st\<lparr>emitted := out\<rparr>))))"

subsection \<open>Registration\<close>

text \<open>
  The heap as an allocation-tracking harness sees it: the live owned buffers, each
  with its address and the bytes of its string, in allocation order.
\<close>

type_synonym heap = "(c_ptr \<times> string) list"

datatype fault = Invalid_free

text \<open>
  Modelled from the spec: the allocator behind \<open>register_app\<close> and
  \<open>get_device_id\<close> (absent bodies). "Returns a newly allocated result string":
  the buffer gets an address above every live one, hence never null.
\<close>

definition fresh :: "heap \<Rightarrow> c_ptr" where
  "fresh h = Suc (fold max (map fst h) 0)"

definition allocate :: "string \<Rightarrow> heap \<Rightarrow> c_ptr \<times> heap" where
  "allocate bytes h = (fresh h, h @ [(fresh h, bytes)])"

text \<open>
  Modelled from the spec: the body of
  \<open>const char* register_app(const char* encrypted_data)\<close>, absent from the
  sources. "Accepts opaque encrypted payload; returns a newly allocated result
  string (format unspecified)": the format is the parameter \<open>result\<close>.
\<close>

definition register_app :: "(string \<Rightarrow> string) \<Rightarrow> string \<Rightarrow> heap \<Rightarrow> c_ptr \<times> heap" where
  "register_app result encrypted_data h = allocate (result encrypted_data) h"

text \<open>
  Modelled from the spec: the body of
  \<open>const char* get_device_id(const char* current_token)\<close>, absent from the
  sources. "Accepts a token; returns a newly allocated device identifier string.
  Same ownership contract": the identifier is the parameter \<open>device_id\<close>.
\<close>

definition get_device_id :: "(string \<Rightarrow> string) \<Rightarrow> string \<Rightarrow> heap \<Rightarrow> c_ptr \<times> heap" where
  "get_device_id device_id current_token h = allocate (device_id current_token) h"

text \<open>
  Modelled from the spec: the body of \<open>void free_string(const char* str)\<close>,
  absent from the sources. "Releases a string previously returned by either
  function above. Calling it on anything else, or calling it twice on the same
  pointer, is undefined behavior": a pointer that is not a live buffer is the
  fault \<open>Invalid_free\<close>.
\<close>

definition free_string :: "c_ptr \<Rightarrow> heap \<Rightarrow> fault + heap" where
  "free_string str h =
     (if str \<in> fst ` set h then Inr (filter (\<lambda>b. fst b \<noteq> str) h) else Inl Invalid_free)"

section \<open>Properties of the telemetry stub\<close>

lemma dispatch_empty_body: "dispatch c = empty_body"
  by (cases c)
    (simp_all add: init_def setEnabled_def setCloudDisabled_def setTelemetryEnvironment_def
      setCloudKey_def recordInit_def recordCompletion_metrics_def recordCompletion_fields_def
      recordEmbedding_def recordTranscription_def recordStreamTranscription_def
      setStreamMode_def markInference_def flush_def shutdown_def)

lemma run_calls_returns: "run_calls cs s = (Returns (), s)"
  by (induction cs) (simp_all add: dispatch_empty_body empty_body_def)

lemma stub_name_and_arity:
  "map name_and_arity (symbols env telemetry_stub_cpp) =
    [(''init'', 3), (''setEnabled'', 1), (''setCloudDisabled'', 1),
     (''setTelemetryEnvironment'', 2), (''setCloudKey'', 1), (''recordInit'', 4),
     (''recordCompletion'', 2), (''recordCompletion'', 7), (''recordEmbedding'', 3),
     (''recordTranscription'', 7), (''recordStreamTranscription'', 11),
     (''setStreamMode'', 1), (''markInference'', 1), (''flush'', 0), (''shutdown'', 0)]"
  by (simp add: symbols_def telemetry_stub_cpp_def mk_symbol_def name_and_arity_def)

lemma entry_points_reached:
  "set [(''init'', 3), (''setEnabled'', 1), (''setCloudDisabled'', 1),
     (''setTelemetryEnvironment'', 2), (''setCloudKey'', 1), (''recordInit'', 4),
     (''recordCompletion'', 2), (''recordCompletion'', 7), (''recordEmbedding'', 3),
     (''recordTranscription'', 7), (''recordStreamTranscription'', 11),
     (''setStreamMode'', 1), (''markInference'', 1), (''flush'', 0), (''shutdown'', 0)]
   \<subseteq> range entry_point"
proof -
  have "entry_point ` set
     [Call_init 0 0 0, Call_setEnabled False, Call_setCloudDisabled False,
      Call_setTelemetryEnvironment 0 0, Call_setCloudKey 0, Call_recordInit 0 False 0 0,
      Call_recordCompletion_metrics 0 0, Call_recordCompletion_fields 0 False 0 0 0 0 0,
      Call_recordEmbedding 0 False 0, Call_recordTranscription 0 False 0 0 0 0 0,
      Call_recordStreamTranscription 0 False 0 0 0 0 0 0 0 0 0,
      Call_setStreamMode False, Call_markInference False, Call_flush, Call_shutdown]
    \<subseteq> range entry_point"
    by (rule image_mono) simp
  then show ?thesis by simp
qed

lemma entry_point_in_stub:
  "entry_point c \<in> set (map name_and_arity (symbols env telemetry_stub_cpp))"
  by (cases c) (simp_all add: stub_name_and_arity)

lemma range_entry_point:
  "range entry_point = set (map name_and_arity (symbols env telemetry_stub_cpp))"
proof
  show "range entry_point \<subseteq> set (map name_and_arity (symbols env telemetry_stub_cpp))"
    using entry_point_in_stub by blast
  show "set (map name_and_arity (symbols env telemetry_stub_cpp)) \<subseteq> range entry_point"
    unfolding stub_name_and_arity by (rule entry_points_reached)
qed

text \<open>
  C1. Every call of a telemetry stub function, with any arguments, and every
  sequence of such calls leaves the state of the process as it was: each function
  is the no-op on the state.
\<close>

theorem telemetry_stub_is_no_op:
  "snd (dispatch c s) = s \<and> snd (run_calls cs s) = s \<and> dispatch c = empty_body"
  by (simp add: dispatch_empty_body run_calls_returns empty_body_def)

text \<open>
  C2. The stub defines exactly the fourteen listed names, \<open>recordCompletion\<close>
  twice, so fifteen functions, each with the parameter list shown, and nothing
  else; the call sites of \<open>telemetry_call\<close> are exactly these functions by name
  and arity. The macro environment does not matter: the file has no directive.
\<close>

theorem telemetry_stub_entry_points:
  "map signature (symbols env telemetry_stub_cpp) =
    [(''init'', [const_char_ptr, const_char_ptr, const_char_ptr]),
     (''setEnabled'', [C_bool]),
     (''setCloudDisabled'', [C_bool]),
     (''setTelemetryEnvironment'', [const_char_ptr, const_char_ptr]),
     (''setCloudKey'', [const_char_ptr]),
     (''recordInit'', [const_char_ptr, C_bool, C_double, const_char_ptr]),
     (''recordCompletion'', [const_char_ptr, Reference (Const (Named ''CompletionMetrics''))]),
     (''recordCompletion'',
        [const_char_ptr, C_bool, C_double, C_double, C_double, C_int, const_char_ptr]),
     (''recordEmbedding'', [const_char_ptr, C_bool, const_char_ptr]),
     (''recordTranscription'',
        [const_char_ptr, C_bool, C_double, C_double, C_double, C_int, const_char_ptr]),
     (''recordStreamTranscription'',
        [const_char_ptr, C_bool, C_double, C_double, C_double, C_int,
         C_double, C_double, C_double, C_int, const_char_ptr]),
     (''setStreamMode'', [C_bool]),
     (''markInference'', [C_bool]),
     (''flush'', []),
     (''shutdown'', [])]
   \<and> set (map sym_name (symbols env telemetry_stub_cpp)) =
      {''init'', ''setEnabled'', ''setCloudDisabled'', ''setTelemetryEnvironment'',
       ''setCloudKey'', ''recordInit'', ''recordCompletion'', ''recordEmbedding'',
       ''recordTranscription'', ''recordStreamTranscription'', ''setStreamMode'',
       ''markInference'', ''flush'', ''shutdown''}
   \<and> length (remdups (map sym_name (symbols env telemetry_stub_cpp))) = 14
   \<and> length (overloads ''recordCompletion'' (symbols env telemetry_stub_cpp)) = 2
   \<and> list_all sym_defined (symbols env telemetry_stub_cpp)
   \<and> range entry_point = set (map name_and_arity (symbols env telemetry_stub_cpp))"
  apply (intro conjI)
       apply (simp add: symbols_def telemetry_stub_cpp_def mk_symbol_def signature_def)
      apply (simp add: symbols_def telemetry_stub_cpp_def mk_symbol_def)
     apply (simp add: symbols_def telemetry_stub_cpp_def mk_symbol_def)
    apply (simp add: symbols_def telemetry_stub_cpp_def mk_symbol_def overloads_def named_def)
   apply (simp add: symbols_def telemetry_stub_cpp_def mk_symbol_def)
  apply (rule range_entry_point)
  done

text \<open>
  C10. A telemetry stub function behaves the same whatever its arguments: two
  calls of the same function from the same state give the same outcome and
  state, and the call with every pointer null returns normally, so no argument
  is dereferenced. \<open>CompletionMetrics\<close> is named in the file and never completed.
\<close>

theorem telemetry_stub_ignores_arguments:
  "entry_point c = entry_point c' \<Longrightarrow>
   dispatch c s = dispatch c' s
   \<and> dispatch (null_pointers c) s = (Returns (), s)
   \<and> ''CompletionMetrics'' \<in> set (named_types (fst (preprocess env telemetry_stub_cpp)))
   \<and> ''CompletionMetrics'' \<notin> set (complete_types (fst (preprocess env telemetry_stub_cpp)))"
  by (simp add: dispatch_empty_body empty_body_def telemetry_stub_cpp_def)

theorem telemetry_stub_ignores_arguments_witness:
  "entry_point (Call_recordCompletion_metrics 4096 8192) =
     entry_point (Call_recordCompletion_metrics 0 0)
   \<and> dispatch (Call_recordCompletion_metrics 4096 8192) (7::nat) =
       dispatch (Call_recordCompletion_metrics 0 0) 7
   \<and> dispatch (null_pointers (Call_recordCompletion_metrics 4096 8192)) (7::nat) =
       (Returns (), 7)
   \<and> ''CompletionMetrics'' \<in>
       set (named_types (fst (preprocess {''__cplusplus''} telemetry_stub_cpp)))
   \<and> ''CompletionMetrics'' \<notin>
       set (complete_types (fst (preprocess {''__cplusplus''} telemetry_stub_cpp)))"
  using telemetry_stub_ignores_arguments
    [of "Call_recordCompletion_metrics 4096 8192" "Call_recordCompletion_metrics 0 0"
      "7::nat" "{''__cplusplus''}"]
  by simp

section \<open>Properties of the logging header\<close>

lemma emit_returns: "fst (emit sink_accepts r out) = Returns ()"
  by (simp add: emit_def)

text \<open>
  C3. Every logging call and every telemetry stub call succeeds: it is declared
  \<open>void\<close>, returns, and never throws, whatever its arguments and whether or not
  the sink takes the record. The declarations of \<open>cactus_log\<close> are read on the
  first inclusion of logging.h.
\<close>

theorem logging_and_telemetry_calls_return:
  "''LOGGING_H'' \<notin> env \<Longrightarrow>
   fst (dispatch c s) = Returns () \<and> fst (run_calls cs s) = Returns ()
   \<and> fst (cactus_log_cstr sink_accepts level tag message out) = Returns ()
   \<and> fst (cactus_log_string sink_accepts level tag message out) = Returns ()
   \<and> list_all returns_void (symbols env' telemetry_stub_cpp)
   \<and> map sym_return (named ''cactus_log'' (symbols env logging_h)) = [C_void, C_void]"
  by (simp add: dispatch_empty_body run_calls_returns empty_body_def emit_returns
      cactus_log_cstr_def cactus_log_string_def returns_void_def
      symbols_def telemetry_stub_cpp_def logging_h_def mk_symbol_def named_def)

theorem logging_and_telemetry_calls_return_witness:
  "''LOGGING_H'' \<notin> {''__cplusplus''} \<and>
   fst (dispatch (Call_init 0 0 0) (7::nat)) = Returns () \<and>
   fst (run_calls [Call_setEnabled True, Call_flush, Call_shutdown] (7::nat)) = Returns ()
   \<and> fst (cactus_log_cstr (\<lambda>r. False) LOG_ERROR ''CactusUtil'' ''boom'' []) = Returns ()
   \<and> fst (cactus_log_string (\<lambda>r. True) LOG_INFO ''CactusUtil'' [] []) = Returns ()
   \<and> list_all returns_void (symbols {''__cplusplus''} telemetry_stub_cpp)
   \<and> map sym_return (named ''cactus_log'' (symbols {''__cplusplus''} logging_h)) =
       [C_void, C_void]"
  using logging_and_telemetry_calls_return
      [of "{''__cplusplus''}" "Call_init 0 0 0" "7::nat"
        "[Call_setEnabled True, Call_flush, Call_shutdown]" "\<lambda>r. False" LOG_ERROR
        "''CactusUtil''" "''boom''" "[]" "{''__cplusplus''}"]
    logging_and_telemetry_calls_return
      [of "{''__cplusplus''}" "Call_init 0 0 0" "7::nat"
        "[Call_setEnabled True, Call_flush, Call_shutdown]" "\<lambda>r. True" LOG_INFO
        "''CactusUtil''" "[]" "[]" "{''__cplusplus''}"]
  by simp

text \<open>
  C6. The levels are exactly \<open>LOG_DEBUG\<close>, \<open>LOG_INFO\<close>, \<open>LOG_WARNING\<close>,
  \<open>LOG_ERROR\<close>, with the values 0, 1, 2, 3, strictly increasing in this order;
  distinct levels have distinct values, so the values order the levels totally.
\<close>

theorem LogLevel_values_increasing:
  "LogLevel_value LOG_DEBUG = 0 \<and> LogLevel_value LOG_INFO = 1
   \<and> LogLevel_value LOG_WARNING = 2 \<and> LogLevel_value LOG_ERROR = 3
   \<and> LogLevel_value LOG_DEBUG < LogLevel_value LOG_INFO
   \<and> LogLevel_value LOG_INFO < LogLevel_value LOG_WARNING
   \<and> LogLevel_value LOG_WARNING < LogLevel_value LOG_ERROR
   \<and> (UNIV :: LogLevel set) = {LOG_DEBUG, LOG_INFO, LOG_WARNING, LOG_ERROR}
   \<and> (LogLevel_value a = LogLevel_value b) = (a = b)"
proof -
  have "l \<in> {LOG_DEBUG, LOG_INFO, LOG_WARNING, LOG_ERROR}" for l
    by (cases l) simp_all
  then have "(UNIV :: LogLevel set) = {LOG_DEBUG, LOG_INFO, LOG_WARNING, LOG_ERROR}"
    by blast
  moreover have "(LogLevel_value a = LogLevel_value b) = (a = b)"
    by (cases a; cases b) simp_all
  ultimately show ?thesis by simp
qed

text \<open>
  C7. For every message and whatever \<open>cactus_log\<close> denotes at the place of use,
  each of the four macros is the call of it with the macro's own level, the tag
  \<open>"CactusUtil"\<close> and the message.
\<close>

theorem logging_macros_bind_tag:
  "CACTUS_LOG_DEBUG log msg = log LOG_DEBUG ''CactusUtil'' msg
   \<and> CACTUS_LOG_INFO log msg = log LOG_INFO ''CactusUtil'' msg
   \<and> CACTUS_LOG_WARNING log msg = log LOG_WARNING ''CactusUtil'' msg
   \<and> CACTUS_LOG_ERROR log msg = log LOG_ERROR ''CactusUtil'' msg"
  by (simp add: CACTUS_LOG_DEBUG_def CACTUS_LOG_INFO_def CACTUS_LOG_WARNING_def
      CACTUS_LOG_ERROR_def LOG_TAG_def)

lemma cactus_log_cstr_call_memory:
  "strings_at (snd (cactus_log_cstr_call sink_accepts level tag message st)) = strings_at st"
  by (simp add: cactus_log_cstr_call_def split: option.split prod.split)

lemma cactus_log_string_call_memory:
  "strings_at (snd (cactus_log_string_call sink_accepts level tag message st)) = strings_at st"
  by (simp add: cactus_log_string_call_def split: option.split prod.split)

text \<open>
  C9. On its first inclusion logging.h declares \<open>cactus_log\<close> exactly twice: both
  overloads take the level and a \<open>const char*\<close> tag, one takes the message as
  \<open>const char*\<close> and the other as \<open>const std::string&\<close>, and every pointer or
  reference parameter is declared read-only. Called with a tag and a message
  that are strings in the caller's memory, either overload returns with that
  memory as it was, so the tag and the message still hold the same characters,
  and what it hands to the sink is the record of the level and these two strings.
\<close>

theorem cactus_log_two_overloads:
  "''LOGGING_H'' \<notin> env \<Longrightarrow> strings_at st tag = Some t \<Longrightarrow> strings_at st message = Some m \<Longrightarrow>
   overloads ''cactus_log'' (symbols env logging_h) =
     [[Named ''LogLevel'', const_char_ptr, const_char_ptr],
      [Named ''LogLevel'', const_char_ptr, Reference (Const (Named ''std::string''))]]
   \<and> map (take 2) (overloads ''cactus_log'' (symbols env logging_h)) =
     [[Named ''LogLevel'', const_char_ptr], [Named ''LogLevel'', const_char_ptr]]
   \<and> map (drop 2) (overloads ''cactus_log'' (symbols env logging_h)) =
     [[const_char_ptr], [Reference (Const (Named ''std::string''))]]
   \<and> list_all (list_all read_only) (overloads ''cactus_log'' (symbols env logging_h))
   \<and> strings_at (snd (cactus_log_cstr_call sink_accepts level tag message st)) = strings_at st
   \<and> strings_at (snd (cactus_log_cstr_call sink_accepts level tag message st)) tag = Some t
   \<and> strings_at (snd (cactus_log_cstr_call sink_accepts level tag message st)) message = Some m
   \<and> cactus_log_cstr_call sink_accepts level tag message st =
       (Returns (), st\<lparr>emitted := snd (cactus_log_cstr sink_accepts level t m (emitted st))\<rparr>)
   \<and> strings_at (snd (cactus_log_string_call sink_accepts level tag message st)) = strings_at st
   \<and> strings_at (snd (cactus_log_string_call sink_accepts level tag message st)) tag = Some t
   \<and> strings_at (snd (cactus_log_string_call sink_accepts level tag message st)) message = Some m
   \<and> cactus_log_string_call sink_accepts level tag message st =
       (Returns (), st\<lparr>emitted := snd (cactus_log_string sink_accepts level t m (emitted st))\<rparr>)"
  apply (intro conjI)
             apply (simp add: symbols_def logging_h_def mk_symbol_def overloads_def named_def)
            apply (simp add: symbols_def logging_h_def mk_symbol_def overloads_def named_def)
           apply (simp add: symbols_def logging_h_def mk_symbol_def overloads_def named_def)
          apply (simp add: symbols_def logging_h_def mk_symbol_def overloads_def named_def)
         apply (rule cactus_log_cstr_call_memory)
        apply (simp add: cactus_log_cstr_call_memory)
       apply (simp add: cactus_log_cstr_call_memory)
      apply (simp add: cactus_log_cstr_call_def cactus_log_cstr_def emit_def)
     apply (rule cactus_log_string_call_memory)
    apply (simp add: cactus_log_string_call_memory)
   apply (simp add: cactus_log_string_call_memory)
  apply (simp add: cactus_log_string_call_def cactus_log_string_def emit_def)
  done

theorem cactus_log_two_overloads_witness:
  "''LOGGING_H'' \<notin> {''__cplusplus''}
   \<and> strings_at \<lparr>strings_at = [1 \<mapsto> ''CactusUtil'', 2 \<mapsto> ''ready''], emitted = []\<rparr> 1 =
       Some ''CactusUtil''
   \<and> strings_at \<lparr>strings_at = [1 \<mapsto> ''CactusUtil'', 2 \<mapsto> ''ready''], emitted = []\<rparr> 2 =
       Some ''ready''
   \<and> overloads ''cactus_log'' (symbols {''__cplusplus''} logging_h) =
     [[Named ''LogLevel'', const_char_ptr, const_char_ptr],
      [Named ''LogLevel'', const_char_ptr, Reference (Const (Named ''std::string''))]]
   \<and> list_all (list_all read_only)
       (overloads ''cactus_log'' (symbols {''__cplusplus''} logging_h))
   \<and> cactus_log_cstr_call (\<lambda>r. True) LOG_INFO 1 2
        \<lparr>strings_at = [1 \<mapsto> ''CactusUtil'', 2 \<mapsto> ''ready''], emitted = []\<rparr> =
       (Returns (),
        \<lparr>strings_at = [1 \<mapsto> ''CactusUtil'', 2 \<mapsto> ''ready''],
         emitted = [\<lparr>lr_level = LOG_INFO, lr_tag = ''CactusUtil'', lr_message = ''ready''\<rparr>]\<rparr>)
   \<and> cactus_log_string_call (\<lambda>r. True) LOG_INFO 1 2
        \<lparr>strings_at = [1 \<mapsto> ''CactusUtil'', 2 \<mapsto> ''ready''], emitted = []\<rparr> =
       (Returns (),
        \<lparr>strings_at = [1 \<mapsto> ''CactusUtil'', 2 \<mapsto> ''ready''],
         emitted = [\<lparr>lr_level = LOG_INFO, lr_tag = ''CactusUtil'', lr_message = ''ready''\<rparr>]\<rparr>)"
  using cactus_log_two_overloads
    [of "{''__cplusplus''}"
      "\<lparr>strings_at = [1 \<mapsto> ''CactusUtil'', 2 \<mapsto> ''ready''], emitted = []\<rparr>"
      1 "''CactusUtil''" 2 "''ready''" "\<lambda>r. True" LOG_INFO]
  by (simp add: cactus_log_cstr_def cactus_log_string_def emit_def)

section \<open>Properties of the registration surface\<close>

text \<open>
  C8. On the first inclusion of cactus\_util.h, \<open>set_android_data_directory\<close>
  is among the declared functions exactly when \<open>__ANDROID__\<close> is defined.
\<close>

theorem set_android_data_directory_iff_android:
  "''cactus_util_H'' \<notin> env \<Longrightarrow>
   (''set_android_data_directory'' \<in> set (map sym_name (symbols env cactus_util_h)))
     = (''__ANDROID__'' \<in> env)"
  by (simp add: symbols_def cactus_util_h_def mk_symbol_def)

theorem set_android_data_directory_iff_android_witness:
  "''cactus_util_H'' \<notin> {''__cplusplus'', ''__ANDROID__''}
   \<and> ''set_android_data_directory'' \<in>
       set (map sym_name (symbols {''__cplusplus'', ''__ANDROID__''} cactus_util_h))
   \<and> ''cactus_util_H'' \<notin> {''__cplusplus''}
   \<and> ''set_android_data_directory'' \<notin>
       set (map sym_name (symbols {''__cplusplus''} cactus_util_h))"
  using set_android_data_directory_iff_android [of "{''__cplusplus'', ''__ANDROID__''}"]
    set_android_data_directory_iff_android [of "{''__cplusplus''}"]
  by simp

text \<open>
  C4, as stated, fails on the telemetry stub: compiled as C++, \<open>init\<close> has C++
  linkage, not every stub function has C linkage, and an overload of
  \<open>recordCompletion\<close> takes a reference, which C does not have.
\<close>

theorem telemetry_stub_not_C_linkage:
  "map sym_linkage (named ''init'' (symbols {''__cplusplus''} telemetry_stub_cpp)) =
     [Cxx_linkage]
   \<and> \<not> list_all has_C_linkage (symbols {''__cplusplus''} telemetry_stub_cpp)
   \<and> \<not> list_all c_compatible_params
         (named ''recordCompletion'' (symbols {''__cplusplus''} telemetry_stub_cpp))"
  by (simp add: symbols_def telemetry_stub_cpp_def mk_symbol_def named_def linkage_in_def
      has_C_linkage_def c_compatible_params_def)

text \<open>
  C4, amended. The functions cactus\_util.h declares have C linkage, in C and in
  C++, at global scope, each with exactly one parameter, a \<open>const char*\<close>;
  \<open>register_app\<close> and \<open>get_device_id\<close> return \<open>const char*\<close>, the others \<open>void\<close>.
  The telemetry stub functions, compiled as C++, have C++ linkage in namespace
  \<open>cactus::telemetry\<close>, return \<open>void\<close>, and have the parameter lists shown, of
  the types \<open>const char*\<close>, \<open>bool\<close>, \<open>double\<close> and \<open>int\<close>, but for the
  two-parameter overload of \<open>recordCompletion\<close>, the only function with a
  parameter C does not have: its second is a \<open>const CompletionMetrics&\<close>.
\<close>

theorem registration_C_linkage_telemetry_Cxx_linkage:
  "''cactus_util_H'' \<notin> env \<Longrightarrow> ''__cplusplus'' \<in> env' \<Longrightarrow>
   list_all has_C_linkage (symbols env cactus_util_h)
   \<and> list_all (in_namespace []) (symbols env cactus_util_h)
   \<and> list_all (params_among [const_char_ptr]) (symbols env cactus_util_h)
   \<and> list_all c_compatible_params (symbols env cactus_util_h)
   \<and> map name_and_return (symbols env cactus_util_h) =
       [(''register_app'', const_char_ptr), (''get_device_id'', const_char_ptr),
        (''free_string'', C_void)] @
       (if ''__ANDROID__'' \<in> env then [(''set_android_data_directory'', C_void)] else [])
   \<and> list_all has_Cxx_linkage (symbols env' telemetry_stub_cpp)
   \<and> list_all (in_namespace [''cactus'', ''telemetry'']) (symbols env' telemetry_stub_cpp)
   \<and> list_all returns_void (symbols env' telemetry_stub_cpp)
   \<and> list_all (params_among [const_char_ptr, C_bool, C_double, C_int,
         Reference (Const (Named ''CompletionMetrics''))]) (symbols env' telemetry_stub_cpp)
   \<and> map signature (symbols env cactus_util_h) =
       [(''register_app'', [const_char_ptr]), (''get_device_id'', [const_char_ptr]),
        (''free_string'', [const_char_ptr])] @
       (if ''__ANDROID__'' \<in> env
        then [(''set_android_data_directory'', [const_char_ptr])] else [])
   \<and> map signature (symbols env' telemetry_stub_cpp) =
       [(''init'', [const_char_ptr, const_char_ptr, const_char_ptr]),
        (''setEnabled'', [C_bool]),
        (''setCloudDisabled'', [C_bool]),
        (''setTelemetryEnvironment'', [const_char_ptr, const_char_ptr]),
        (''setCloudKey'', [const_char_ptr]),
        (''recordInit'', [const_char_ptr, C_bool, C_double, const_char_ptr]),
        (''recordCompletion'',
           [const_char_ptr, Reference (Const (Named ''CompletionMetrics''))]),
        (''recordCompletion'',
           [const_char_ptr, C_bool, C_double, C_double, C_double, C_int, const_char_ptr]),
        (''recordEmbedding'', [const_char_ptr, C_bool, const_char_ptr]),
        (''recordTranscription'',
           [const_char_ptr, C_bool, C_double, C_double, C_double, C_int, const_char_ptr]),
        (''recordStreamTranscription'',
           [const_char_ptr, C_bool, C_double, C_double, C_double, C_int,
            C_double, C_double, C_double, C_int, const_char_ptr]),
        (''setStreamMode'', [C_bool]),
        (''markInference'', [C_bool]),
        (''flush'', []),
        (''shutdown'', [])]
   \<and> map signature
        (filter (\<lambda>s. \<not> c_compatible_params s) (symbols env' telemetry_stub_cpp)) =
       [(''recordCompletion'',
           [const_char_ptr, Reference (Const (Named ''CompletionMetrics''))])]
   \<and> list_all (params_among [const_char_ptr, C_bool, C_double, C_int])
        (filter c_compatible_params (symbols env' telemetry_stub_cpp))"
  apply (intro conjI)
              apply (simp add: symbols_def cactus_util_h_def mk_symbol_def linkage_in_def
      has_C_linkage_def)
             apply (simp add: symbols_def cactus_util_h_def mk_symbol_def in_namespace_def)
            apply (simp add: symbols_def cactus_util_h_def mk_symbol_def params_among_def)
           apply (simp add: symbols_def cactus_util_h_def mk_symbol_def c_compatible_params_def)
          apply (simp add: symbols_def cactus_util_h_def mk_symbol_def name_and_return_def)
         apply (simp add: symbols_def telemetry_stub_cpp_def mk_symbol_def linkage_in_def
      has_Cxx_linkage_def)
        apply (simp add: symbols_def telemetry_stub_cpp_def mk_symbol_def in_namespace_def)
       apply (simp add: symbols_def telemetry_stub_cpp_def mk_symbol_def returns_void_def)
      apply (simp add: symbols_def telemetry_stub_cpp_def mk_symbol_def params_among_def)
     apply (simp add: symbols_def cactus_util_h_def mk_symbol_def signature_def)
    apply (simp add: symbols_def telemetry_stub_cpp_def mk_symbol_def signature_def)
   apply (simp add: symbols_def telemetry_stub_cpp_def mk_symbol_def signature_def
      c_compatible_params_def)
  apply (simp add: symbols_def telemetry_stub_cpp_def mk_symbol_def params_among_def
      c_compatible_params_def)
  done

theorem registration_C_linkage_telemetry_Cxx_linkage_witness:
  "''cactus_util_H'' \<notin> {''__cplusplus'', ''__ANDROID__''}
   \<and> ''__cplusplus'' \<in> {''__cplusplus''}
   \<and> list_all has_C_linkage (symbols {''__cplusplus'', ''__ANDROID__''} cactus_util_h)
   \<and> map name_and_return (symbols {''__cplusplus'', ''__ANDROID__''} cactus_util_h) =
       [(''register_app'', const_char_ptr), (''get_device_id'', const_char_ptr),
        (''free_string'', C_void), (''set_android_data_directory'', C_void)]
   \<and> map signature (symbols {''__cplusplus'', ''__ANDROID__''} cactus_util_h) =
       [(''register_app'', [const_char_ptr]), (''get_device_id'', [const_char_ptr]),
        (''free_string'', [const_char_ptr]),
        (''set_android_data_directory'', [const_char_ptr])]
   \<and> list_all has_Cxx_linkage (symbols {''__cplusplus''} telemetry_stub_cpp)
   \<and> list_all (in_namespace [''cactus'', ''telemetry''])
       (symbols {''__cplusplus''} telemetry_stub_cpp)
   \<and> map signature
        (filter (\<lambda>s. \<not> c_compatible_params s) (symbols {''__cplusplus''} telemetry_stub_cpp)) =
       [(''recordCompletion'',
           [const_char_ptr, Reference (Const (Named ''CompletionMetrics''))])]"
  using registration_C_linkage_telemetry_Cxx_linkage
    [of "{''__cplusplus'', ''__ANDROID__''}" "{''__cplusplus''}"]
  by simp

lemma fold_max_above: "b \<le> fold max xs (b::nat)"
proof (induction xs arbitrary: b)
  case Nil
  show ?case by simp
next
  case (Cons y ys)
  have "b \<le> max y b" by simp
  also have "\<dots> \<le> fold max ys (max y b)" by (rule Cons.IH)
  finally show ?case by simp
qed

lemma fold_max_ge: "a \<in> set xs \<Longrightarrow> a \<le> fold max xs (b::nat)"
proof (induction xs arbitrary: b)
  case Nil
  then show ?case by simp
next
  case (Cons x xs)
  show ?case
  proof (cases "a = x")
    case True
    have "a \<le> max x b" using True by simp
    also have "\<dots> \<le> fold max xs (max x b)" by (rule fold_max_above)
    finally show ?thesis by simp
  next
    case False
    with Cons.prems have "a \<in> set xs" by simp
    then show ?thesis using Cons.IH by simp
  qed
qed

lemma fresh_not_live: "fresh h \<notin> fst ` set h"
proof
  assume "fresh h \<in> fst ` set h"
  then have "fresh h \<in> set (map fst h)" by simp
  then have "fresh h \<le> fold max (map fst h) 0" by (rule fold_max_ge)
  then show False by (simp add: fresh_def)
qed

lemma free_allocate: "free_string (fst (allocate bytes h)) (snd (allocate bytes h)) = Inr h"
proof -
  have "filter (\<lambda>b. fst b \<noteq> fresh h) h = h"
    using fresh_not_live [of h] by (force simp: filter_id_conv)
  then show ?thesis by (simp add: free_string_def allocate_def)
qed

lemma allocate_holds:
  "map_of (snd (allocate bytes h)) (fst (allocate bytes h)) = Some bytes"
proof -
  have "map_of h (fresh h) = None"
    using fresh_not_live [of h] by (simp add: map_of_eq_None_iff)
  then show ?thesis by (simp add: allocate_def map_add_def)
qed

text \<open>
  C5. For every input string \<open>x\<close>, the empty one included, and every heap,
  \<open>register_app\<close> and \<open>get_device_id\<close> return a non-null address that was not
  live before and now holds the result, and \<open>free_string\<close> on that address
  succeeds and leaves exactly the buffers that were live before the call.
\<close>

theorem owned_string_released_by_free_string:
  "fst (register_app result x h) \<notin> fst ` set h
   \<and> fst (register_app result x h) \<noteq> 0
   \<and> map_of (snd (register_app result x h)) (fst (register_app result x h)) = Some (result x)
   \<and> free_string (fst (register_app result x h)) (snd (register_app result x h)) = Inr h
   \<and> fst (get_device_id device_id x h) \<notin> fst ` set h
   \<and> fst (get_device_id device_id x h) \<noteq> 0
   \<and> map_of (snd (get_device_id device_id x h)) (fst (get_device_id device_id x h)) =
       Some (device_id x)
   \<and> free_string (fst (get_device_id device_id x h)) (snd (get_device_id device_id x h)) =
       Inr h"
  unfolding register_app_def get_device_id_def
  using fresh_not_live [of h]
  by (simp add: free_allocate allocate_holds) (simp add: allocate_def fresh_def)

end
